theory Spec2Isabelle
  imports Complex_Main
begin

section \<open>Values of the Python program\<close>

text \<open>
  The program is \<^verbatim>\<open>src/mlo/problem.py\<close>: the classes \<^verbatim>\<open>ProblemData\<close> and
  \<^verbatim>\<open>OptimizationProblem\<close>. It is written against numpy and scipy.sparse, so the
  embedding starts with the values and the library operations the code applies.
  A numpy float array of one dimension is a list of reals; an exception is a value of
  \<open>py_error\<close>, and a function that can raise returns \<open>py_error + 'a\<close> with \<open>Inl\<close>
  for the exception.

  The arithmetic is exact where the code computes in float64: rounding, underflow, inf
  and nan are not represented. What is proved of a computed number is therefore proved
  of the exact value of the expression the code evaluates. The statements about
  exceptions, lengths and which value is passed where do not depend on it.
\<close>

type_synonym vec = "real list"

datatype py_error =
    TypeError
  | AttributeError
  | ValueError
  | IndexError
  | AssertionError
  | ImportError
  | ProblemNotSolved string
  | OutsideModel

text \<open>
  \<open>ProblemNotSolved st\<close> is the \<^verbatim>\<open>ValueError('Problem not solved. Status %s' % results.status)\<close>
  of \<^verbatim>\<open>solve\<close>: the status is the only datum its message holds. \<open>ValueError\<close> stands for
  the ValueErrors numpy and scipy raise. \<open>OutsideModel\<close> is not a Python exception: it marks
  the places where the embedding does not follow numpy: bounds of the instance that are
  not one-dimensional (in \<^verbatim>\<open>eq_ineq\<close>, in \<^verbatim>\<open>infeasibility\<close> and where
  \<^verbatim>\<open>solve_with_strategy\<close> selects bounds), and a float division by zero, whose result
  is inf or nan.
\<close>

definition then_do :: "py_error + 'a \<Rightarrow> ('a \<Rightarrow> py_error + 'b) \<Rightarrow> py_error + 'b" where
  "then_do m f = (case m of Inl e \<Rightarrow> Inl e | Inr v \<Rightarrow> f v)"

text \<open>
  An array of bounds is one-dimensional in an instance as the user builds it, and
  two-dimensional when it comes out of \<^verbatim>\<open>np.vstack\<close> (line 245): \<open>Arr2 rows\<close> has
  shape \<open>(length rows, length of each row)\<close>.
\<close>

datatype ndarray = Arr1 vec | Arr2 "vec list"

fun np_len :: "ndarray \<Rightarrow> nat" where
  "np_len (Arr1 v) = length v"
| "np_len (Arr2 rows) = length rows"

fun as_vec :: "ndarray \<Rightarrow> py_error + vec" where
  "as_vec (Arr1 v) = Inr v"
| "as_vec (Arr2 rows) = Inl OutsideModel"

text \<open>
  Elementwise arithmetic of two one-dimensional arrays, with numpy's broadcasting: equal
  lengths, or one operand of length 1; anything else raises ValueError.
\<close>

definition np_binop :: "(real \<Rightarrow> real \<Rightarrow> real) \<Rightarrow> vec \<Rightarrow> vec \<Rightarrow> py_error + vec" where
  "np_binop f a b =
     (if length a = length b then Inr (map2 f a b)
      else if length b = 1 then Inr (map (\<lambda>v. f v (hd b)) a)
      else if length a = 1 then Inr (map (\<lambda>v. f (hd a) v) b)
      else Inl ValueError)"

text \<open>
  \<^verbatim>\<open>np.where(v)\<close> with one argument returns a tuple holding the array of the indices at
  which \<open>v\<close> is nonzero. Python's \<^verbatim>\<open><=\<close> between such a tuple and a float is not
  defined (TypeError); between two floats it is the order of the reals.
\<close>

definition np_where :: "vec \<Rightarrow> nat list" where
  "np_where v = filter (\<lambda>i. v ! i \<noteq> 0) [0..<length v]"

datatype py_value = PyFloat real | PyIndexTuple "nat list"

fun py_le :: "py_value \<Rightarrow> real \<Rightarrow> py_error + bool" where
  "py_le (PyFloat a) t = Inr (a \<le> t)"
| "py_le (PyIndexTuple idx) t = Inl TypeError"

text \<open>\<^verbatim>\<open>set(b)\<close> of a bool raises TypeError: a bool is not iterable.\<close>

definition py_set_of_bool :: "bool \<Rightarrow> py_error + nat set" where
  "py_set_of_bool b = Inl TypeError"

definition dot :: "vec \<Rightarrow> vec \<Rightarrow> real" where
  "dot a b = sum_list (map2 (*) a b)"

definition np_dot :: "vec \<Rightarrow> vec \<Rightarrow> py_error + real" where
  "np_dot a b = (if length a = length b then Inr (dot a b) else Inl ValueError)"

definition norm_inf :: "vec \<Rightarrow> real" where
  "norm_inf v = fold max (map abs v) 0"

text \<open>A numpy array has no attribute \<^verbatim>\<open>opt\<close>: reading it raises AttributeError.\<close>

definition ndarray_opt :: "vec \<Rightarrow> py_error + vec" where
  "ndarray_opt v = Inl AttributeError"

section \<open>Sparse matrices\<close>

text \<open>
  A scipy sparse matrix: its storage format, its number of columns and its rows, written
  densely. Only the CSR and CSC formats can be subscripted; \<^verbatim>\<open>spa.eye(n)\<close> without a
  format is a DIA matrix.
\<close>

datatype sp_format = CSR | CSC | COO | DIA

record spmatrix =
  sp_fmt :: sp_format
  sp_ncols :: nat
  sp_rows :: "vec list"

definition subscriptable :: "sp_format \<Rightarrow> bool" where
  "subscriptable f = (f = CSR \<or> f = CSC)"




text \<open>A list comprehension whose element expression can raise: the first exception wins.\<close>

fun collect :: "(py_error + 'a) list \<Rightarrow> py_error + 'a list" where
  "collect [] = Inr []"
| "collect (m # ms) = then_do m (\<lambda>v. then_do (collect ms) (\<lambda>vs. Inr (v # vs)))"

section \<open>ProblemData\<close>

record problem_data =
  pd_c :: vec
  pd_l :: ndarray
  pd_A :: spmatrix
  pd_u :: ndarray
  pd_int_idx :: "int list"

text \<open>
  \<^verbatim>\<open>eq_ineq\<close> (lines 20-27). \<open>TOL\<close> is \<^verbatim>\<open>constants.TOL\<close>, a float whose module is not
  among the sources: a parameter. The call \<^verbatim>\<open>np.where(self.u - self.l)\<close> closes before
  the comparison, so the tuple it returns is what is compared with \<open>TOL\<close>.
\<close>

definition eq_ineq :: "real \<Rightarrow> problem_data \<Rightarrow> py_error + (bool \<times> nat set)" where
  "eq_ineq TOL d =
     (let n_con = np_len (pd_l d) in
      then_do (as_vec (pd_u d)) (\<lambda>u.
      then_do (as_vec (pd_l d)) (\<lambda>l.
      then_do (np_binop (-) u l) (\<lambda>diff.
      then_do (py_le (PyIndexTuple (np_where diff)) TOL) (\<lambda>eq.
      then_do (py_set_of_bool eq) (\<lambda>eq_set.
      Inr (eq, {0..<n_con} - eq_set)))))))"

definition cost :: "problem_data \<Rightarrow> vec \<Rightarrow> py_error + real" where
  "cost d x = np_dot (pd_c d) x"

definition is_mip :: "problem_data \<Rightarrow> bool" where
  "is_mip d = (length (pd_int_idx d) > 0)"

section \<open>Metrics\<close>

text \<open>
  \<^verbatim>\<open>suboptimality\<close> (lines 65-70). The second cost is taken at \<^verbatim>\<open>x.opt\<close>, an attribute
  of the first argument; the parameter \<^verbatim>\<open>x_opt\<close> is not read. The left operand of the
  subtraction is evaluated first.
\<close>

definition suboptimality :: "problem_data \<Rightarrow> vec \<Rightarrow> vec \<Rightarrow> py_error + real" where
  "suboptimality d x x_opt =
     (let c = pd_c d in
      then_do (cost d x) (\<lambda>cost_x.
      then_do (ndarray_opt x) (\<lambda>x_dot_opt.
      then_do (cost d x_dot_opt) (\<lambda>cost_opt.
      if norm_inf c = 0 then Inl OutsideModel
      else Inr ((cost_x - cost_opt) / norm_inf c)))))"







section \<open>The solver adapter and the strategy\<close>

text \<open>
  Modelled from the spec: the \<^verbatim>\<open>Strategy\<close> class (module \<^verbatim>\<open>strategy\<close>, not among the
  sources). \<^verbatim>\<open>Strategy(x_int, active_constraints)\<close> keeps its two arguments as
  \<^verbatim>\<open>int_vars\<close> and \<^verbatim>\<open>active_constraints\<close>, the attributes line 220 reads. The values of
  \<^verbatim>\<open>int_vars\<close> are entries of the solver's solution vector, so they are reals here.
\<close>

record strategy =
  int_vars :: vec
  active_constraints :: "int list"

text \<open>
  Modelled from the spec: the result of a solver adapter (module \<^verbatim>\<open>solvers\<close>, not among
  the sources), with the four attributes \<^verbatim>\<open>solve\<close> reads.
\<close>

record solver_result =
  res_status :: string
  res_x :: vec
  res_run_time :: real
  res_active_constraints :: "int list"

text \<open>
  What \<^verbatim>\<open>solve\<close> and \<^verbatim>\<open>solve_with_strategy\<close> take from outside the file:
  \<^item> \<open>solver\<close>: \<^verbatim>\<open>SOLVER_MAP[solver](settings).solve\<close>, a function of the instance;
  \<^item> \<open>SOLUTION_PRESENT\<close>: the constant of module \<^verbatim>\<open>statuses\<close>;
  \<^item> \<open>cvx_gurobi\<close>: lines 122-127, the import of cvxpy and the GUROBI solve that run
    before the raise of line 128; \<open>Some e\<close> when they raise \<open>e\<close> themselves;
  \<^item> \<open>getitem_where_rows\<close>: scipy's \<^verbatim>\<open>A[t, :]\<close> where \<open>t\<close> is the tuple \<^verbatim>\<open>np.where\<close>
    returns (lines 240 and 242). scipy refuses an index of two dimensions next to a slice
    (IndexError), and a tuple holding an array is one; it is a parameter so that
    nothing below depends on whether it raises or selects the rows.
\<close>

record env =
  solver :: "problem_data \<Rightarrow> solver_result"
  SOLUTION_PRESENT :: "string list"
  cvx_gurobi :: "problem_data \<Rightarrow> py_error option"
  getitem_where_rows :: "spmatrix \<Rightarrow> nat list \<Rightarrow> py_error + spmatrix"

subsection \<open>Indexing and stacking\<close>

text \<open>A Python index into a sequence of length \<open>n\<close>: negative indices count from the end.\<close>

definition py_index :: "nat \<Rightarrow> int \<Rightarrow> py_error + nat" where
  "py_index n i =
     (if 0 \<le> i \<and> i < int n then Inr (nat i)
      else if - int n \<le> i \<and> i < 0 then Inr (nat (int n + i))
      else Inl IndexError)"

text \<open>\<^verbatim>\<open>xs[idx]\<close> with an integer index array.\<close>

definition np_take :: "'a list \<Rightarrow> int list \<Rightarrow> py_error + 'a list" where
  "np_take xs idx =
     then_do (collect (map (py_index (length xs)) idx)) (\<lambda>js. Inr (map (nth xs) js))"

definition spa_eye :: "nat \<Rightarrow> sp_format \<Rightarrow> spmatrix" where
  "spa_eye n f =
     \<lparr>sp_fmt = f, sp_ncols = n,
      sp_rows = map (\<lambda>i. map (\<lambda>j. if i = j then 1 else 0) [0..<n]) [0..<n]\<rparr>"

text \<open>\<^verbatim>\<open>M[idx, :]\<close> with an integer index array: the rows, in the format of \<open>M\<close>.\<close>

definition sp_getitem_rows :: "spmatrix \<Rightarrow> int list \<Rightarrow> py_error + spmatrix" where
  "sp_getitem_rows M idx =
     (if \<not> subscriptable (sp_fmt M) then Inl TypeError
      else then_do (np_take (sp_rows M) idx) (\<lambda>rows. Inr (M\<lparr>sp_rows := rows\<rparr>)))"

text \<open>
  The same with an array of floats as the index (line 234 indexes with
  \<^verbatim>\<open>strategy.int_vars\<close>): the format is looked at first; whole numbers are taken as
  indices, anything else is refused.
\<close>

definition index_array :: "vec \<Rightarrow> py_error + int list" where
  "index_array v =
     (if list_all (\<lambda>r. r = of_int \<lfloor>r\<rfloor>) v then Inr (map floor v) else Inl IndexError)"

definition sp_getitem_rows_real :: "spmatrix \<Rightarrow> vec \<Rightarrow> py_error + spmatrix" where
  "sp_getitem_rows_real M v =
     (if \<not> subscriptable (sp_fmt M) then Inl TypeError
      else then_do (index_array v) (sp_getitem_rows M))"

text \<open>
  \<^verbatim>\<open>spa.vstack\<close>: the blocks must agree on the number of columns; the result is CSR when
  every block is, COO otherwise.
\<close>

definition spa_vstack :: "spmatrix list \<Rightarrow> py_error + spmatrix" where
  "spa_vstack blocks =
     (if list_all (\<lambda>B. sp_ncols B = sp_ncols (hd blocks)) blocks then
        Inr \<lparr>sp_fmt = (if list_all (\<lambda>B. sp_fmt B = CSR) blocks then CSR else COO),
             sp_ncols = sp_ncols (hd blocks),
             sp_rows = concat (map sp_rows blocks)\<rparr>
      else Inl ValueError)"

text \<open>\<^verbatim>\<open>np.concatenate((a, b))\<close> with \<open>b\<close> one-dimensional: \<open>a\<close> must be one-dimensional too.\<close>

fun np_concatenate :: "ndarray \<Rightarrow> vec \<Rightarrow> py_error + ndarray" where
  "np_concatenate (Arr1 a) b = Inr (Arr1 (a @ b))"
| "np_concatenate (Arr2 rows) b = Inl ValueError"

text \<open>
  \<^verbatim>\<open>np.vstack\<close>: every block is made two-dimensional (a one-dimensional array is one
  row), and the blocks must agree on the length of their rows.
\<close>

fun atleast_2d :: "ndarray \<Rightarrow> vec list" where
  "atleast_2d (Arr1 v) = [v]"
| "atleast_2d (Arr2 rows) = rows"

fun np_width :: "ndarray \<Rightarrow> nat" where
  "np_width (Arr1 v) = length v"
| "np_width (Arr2 rows) = (case rows of [] \<Rightarrow> 0 | r # _ \<Rightarrow> length r)"

definition np_vstack :: "ndarray list \<Rightarrow> py_error + ndarray" where
  "np_vstack blocks =
     (if list_all (\<lambda>b. np_width b = np_width (hd blocks)) blocks then
        Inr (Arr2 (concat (map atleast_2d blocks)))
      else Inl ValueError)"

text \<open>\<^verbatim>\<open>np.max\<close> and \<^verbatim>\<open>np.min\<close> of an empty array raise ValueError.\<close>

fun np_max :: "vec \<Rightarrow> py_error + real" where
  "np_max [] = Inl ValueError"
| "np_max (a # as) = Inr (fold max as a)"

fun np_min :: "vec \<Rightarrow> py_error + real" where
  "np_min [] = Inl ValueError"
| "np_min (a # as) = Inr (fold min as a)"

definition py_assert :: "bool \<Rightarrow> py_error + unit" where
  "py_assert b = (if b then Inr () else Inl AssertionError)"

text \<open>\<^verbatim>\<open>np.where(a == k)\<close>: the indices at which the array holds \<open>k\<close>.\<close>

definition np_where_eq :: "int list \<Rightarrow> int \<Rightarrow> nat list" where
  "np_where_eq a k = filter (\<lambda>i. a ! i = k) [0..<length a]"

text \<open>\<^verbatim>\<open>u[t]\<close> where \<open>t\<close> is the tuple \<^verbatim>\<open>np.where\<close> returns: the entries at those indices.\<close>

fun np_getitem_where :: "ndarray \<Rightarrow> nat list \<Rightarrow> py_error + ndarray" where
  "np_getitem_where (Arr1 v) idx =
     (if list_all (\<lambda>i. i < length v) idx then Inr (Arr1 (map (nth v) idx)) else Inl IndexError)"
| "np_getitem_where (Arr2 rows) idx = Inl OutsideModel"

section \<open>OptimizationProblem.solve\<close>

text \<open>
  Lines 138-145: the continuous restriction of a mixed-integer instance, one row of the
  identity per integer index, with \<open>x_int\<close> as both bounds.
\<close>

definition continuous_restriction :: "problem_data \<Rightarrow> vec \<Rightarrow> py_error + problem_data" where
  "continuous_restriction d x_int =
     (let c_cont = pd_c d; n_var = length c_cont in
      then_do (sp_getitem_rows (spa_eye n_var CSC) (pd_int_idx d)) (\<lambda>fixing.
      then_do (spa_vstack [pd_A d, fixing]) (\<lambda>A_cont.
      then_do (np_concatenate (pd_u d) x_int) (\<lambda>u_cont.
      then_do (np_concatenate (pd_l d) x_int) (\<lambda>l_cont.
      Inr \<lparr>pd_c = c_cont, pd_l = l_cont, pd_A = A_cont, pd_u = u_cont, pd_int_idx = []\<rparr>)))))"

text \<open>\<^verbatim>\<open>solve\<close> (lines 75-158).\<close>

definition solve :: "env \<Rightarrow> problem_data \<Rightarrow> py_error + (vec \<times> real \<times> strategy)" where
  "solve E d =
     (let results = solver E d in
      if res_status results \<notin> set (SOLUTION_PRESENT E) then
        (case cvx_gurobi E d of
           Some e \<Rightarrow> Inl e
         | None \<Rightarrow> Inl (ProblemNotSolved (res_status results)))
      else
        let x_opt = res_x results; time = res_run_time results in
        if is_mip d then
          then_do (np_take (res_x results) (pd_int_idx d)) (\<lambda>x_int.
          then_do (continuous_restriction d x_int) (\<lambda>data_cont.
          let results_cont = solver E data_cont in
          Inr (x_opt, time,
               \<lparr>int_vars = x_int, active_constraints = res_active_constraints results_cont\<rparr>)))
        else
          Inr (x_opt, time,
               \<lparr>int_vars = [], active_constraints = res_active_constraints results\<rparr>))"

section \<open>OptimizationProblem.solve_with_strategy\<close>

text \<open>Lines 222-224: the two assertions on \<^verbatim>\<open>strategy.int_vars\<close>.\<close>

definition validate_int_vars :: "problem_data \<Rightarrow> strategy \<Rightarrow> py_error + unit" where
  "validate_int_vars d s =
     (if is_mip d then
        then_do (np_max (int_vars s)) (\<lambda>hi.
        then_do (py_assert (hi \<le> real (np_len (pd_l d)))) (\<lambda>_.
        then_do (np_min (int_vars s)) (\<lambda>lo.
        py_assert (lo \<ge> 0))))
      else Inr ())"

text \<open>
  Lines 233-235: the rows that fix the integer variables. The name \<^verbatim>\<open>int_idx\<close> is bound
  to \<^verbatim>\<open>strategy.int_vars\<close> at line 220, and \<^verbatim>\<open>spa.eye(n_var)\<close> is called without a format.
\<close>

definition fix_integer_rows ::
  "problem_data \<Rightarrow> strategy \<Rightarrow> spmatrix \<times> ndarray \<Rightarrow> py_error + (spmatrix \<times> ndarray)" where
  "fix_integer_rows d s st =
     (case st of (A_red, bound_red) \<Rightarrow>
        if is_mip d then
          (let int_idx = int_vars s; n_var = length (pd_c d) in
           then_do (sp_getitem_rows_real (spa_eye n_var DIA) int_idx) (\<lambda>fixing.
           then_do (spa_vstack [A_red, fixing]) (\<lambda>A_red.
           then_do (np_vstack [bound_red, Arr1 int_idx]) (\<lambda>bound_red.
           Inr (A_red, bound_red)))))
        else Inr (A_red, bound_red))"

text \<open>Lines 238-245: the rows the strategy marks active, stacked under the fixing rows.\<close>

definition use_active_constraints ::
  "env \<Rightarrow> problem_data \<Rightarrow> strategy \<Rightarrow> spmatrix \<times> ndarray \<Rightarrow> py_error + (spmatrix \<times> ndarray)" where
  "use_active_constraints E d s st =
     (case st of (A_red, bound_red) \<Rightarrow>
        let active_constr = active_constraints s;
            active_constraints_upper = np_where_eq active_constr 1;
            active_constraints_lower = np_where_eq active_constr (- 1) in
        then_do (getitem_where_rows E (pd_A d) active_constraints_upper) (\<lambda>A_upper.
        then_do (np_getitem_where (pd_u d) active_constraints_upper) (\<lambda>u_upper.
        then_do (getitem_where_rows E (pd_A d) active_constraints_lower) (\<lambda>A_lower.
        then_do (np_getitem_where (pd_l d) active_constraints_lower) (\<lambda>l_lower.
        then_do (spa_vstack [A_red, A_lower, A_upper]) (\<lambda>A_red.
        then_do (np_vstack [bound_red, l_lower, u_upper]) (\<lambda>bound_red.
        Inr (A_red, bound_red))))))))"

text \<open>
  \<^verbatim>\<open>solve_with_strategy\<close> (lines 197-254): the three steps, then the reduced instance
  (line 249, with \<^verbatim>\<open>bound_red\<close> as both bounds) and its solve.
\<close>

definition reduced_problem :: "env \<Rightarrow> problem_data \<Rightarrow> strategy \<Rightarrow> py_error + problem_data" where
  "reduced_problem E d s =
     then_do (validate_int_vars d s) (\<lambda>_.
     let n_var = length (pd_c d);
         A_red = \<lparr>sp_fmt = CSC, sp_ncols = n_var, sp_rows = []\<rparr>;
         bound_red = Arr1 [] in
     then_do (fix_integer_rows d s (A_red, bound_red)) (\<lambda>st.
     then_do (use_active_constraints E d s st) (\<lambda>(A_red, bound_red).
     Inr \<lparr>pd_c = pd_c d, pd_l = bound_red, pd_A = A_red, pd_u = bound_red, pd_int_idx = []\<rparr>)))"

definition solve_with_strategy :: "env \<Rightarrow> problem_data \<Rightarrow> strategy \<Rightarrow> py_error + (vec \<times> real)" where
  "solve_with_strategy E d s =
     then_do (reduced_problem E d s) (\<lambda>problem.
     then_do (solve E problem) (\<lambda>(x, time, _). Inr (x, time)))"

section \<open>Concrete instances\<close>

text \<open>One variable, one row: \<open>0 \<le> x \<le> 1\<close>, cost \<open>x\<close>.\<close>

definition box_lp :: problem_data where
  "box_lp = \<lparr>pd_c = [1], pd_l = Arr1 [0], pd_A = \<lparr>sp_fmt = CSC, sp_ncols = 1, sp_rows = [[1]]\<rparr>,
          pd_u = Arr1 [1], pd_int_idx = []\<rparr>"

text \<open>
  The same with \<open>x\<close> integer; the row \<open>5 \<le> x \<le> 1\<close> and the row \<open>7 \<le> x \<le> 1\<close>, both
  infeasible.
\<close>

definition box_mip :: problem_data where
  "box_mip = box_lp\<lparr>pd_int_idx := [0]\<rparr>"

definition infeasible_lp :: problem_data where
  "infeasible_lp = box_lp\<lparr>pd_l := Arr1 [5]\<rparr>"

definition infeasible_lp' :: problem_data where
  "infeasible_lp' = box_lp\<lparr>pd_l := Arr1 [7]\<rparr>"

text \<open>
  Two adapters, the indexing of scipy and three environments. \<open>lower_tight_adapter\<close> answers every instance with
  the zero vector and reports every row tight at its lower bound, one entry per row of
  the instance it is handed: for \<open>box_lp\<close> that is the optimum and its active set.
  \<open>infeasible_adapter\<close> reports a status outside \<open>SOLUTION_PRESENT\<close>.
  \<open>scipy_getitem_where\<close> is what scipy does for \<^verbatim>\<open>A[t, :]\<close> with \<open>t\<close> the tuple of
  \<^verbatim>\<open>np.where\<close>: IndexError on every input, the empty selection included.
\<close>

definition lower_tight_adapter :: "problem_data \<Rightarrow> solver_result" where
  "lower_tight_adapter d =
     \<lparr>res_status = ''optimal'', res_x = replicate (length (pd_c d)) 0, res_run_time = 1,
      res_active_constraints = replicate (np_len (pd_l d)) (- 1)\<rparr>"

definition infeasible_adapter :: "problem_data \<Rightarrow> solver_result" where
  "infeasible_adapter d =
     \<lparr>res_status = ''infeasible'', res_x = [], res_run_time = 1, res_active_constraints = []\<rparr>"

definition scipy_getitem_where :: "spmatrix \<Rightarrow> nat list \<Rightarrow> py_error + spmatrix" where
  "scipy_getitem_where M idx = Inl IndexError"

definition env_ok :: env where
  "env_ok = \<lparr>solver = lower_tight_adapter, SOLUTION_PRESENT = [''optimal''],
            cvx_gurobi = (\<lambda>d. None), getitem_where_rows = scipy_getitem_where\<rparr>"

definition env_infeasible :: env where
  "env_infeasible = env_ok\<lparr>solver := infeasible_adapter\<rparr>"

definition env_no_cvxpy :: env where
  "env_no_cvxpy = env_infeasible\<lparr>cvx_gurobi := (\<lambda>d. Some ImportError)\<rparr>"


definition wide_mip :: problem_data where
  "wide_mip = \<lparr>pd_c = [1, 1, 1], pd_l = Arr1 [0],
               pd_A = \<lparr>sp_fmt = CSC, sp_ncols = 3, sp_rows = [[1, 1, 1]]\<rparr>,
               pd_u = Arr1 [1], pd_int_idx = [2]\<rparr>"

definition tall_mip :: problem_data where
  "tall_mip = \<lparr>pd_c = [1], pd_l = Arr1 [0, 0],
               pd_A = \<lparr>sp_fmt = CSC, sp_ncols = 1, sp_rows = [[1], [1]]\<rparr>,
               pd_u = Arr1 [1, 1], pd_int_idx = [0]\<rparr>"

section \<open>Basic facts\<close>

lemma then_do_Inl [simp]: "then_do (Inl e) f = Inl e"
  by (simp add: then_do_def)

lemma then_do_Inr [simp]: "then_do (Inr v) f = f v"
  by (simp add: then_do_def)

lemma then_do_eq_Inr: "then_do m f = Inr r \<longleftrightarrow> (\<exists>v. m = Inr v \<and> f v = Inr r)"
  by (cases m) simp_all

subsection \<open>The violation vector and its normalisation\<close>















subsection \<open>Facts about solve\<close>

lemma collect_error: "collect ms = Inl e \<Longrightarrow> Inl e \<in> set ms"
proof (induction ms)
  case Nil
  then show ?case by simp
next
  case (Cons m ms)
  then show ?case
    by (cases m; cases "collect ms") auto
qed

lemma collect_py_index_error: "collect (map (py_index n) idx) = Inl e \<Longrightarrow> e = IndexError"
  by (drule collect_error) (auto simp: py_index_def split: if_splits)

lemma np_take_error: "np_take xs idx = Inl e \<Longrightarrow> e = IndexError"
  by (cases "collect (map (py_index (length xs)) idx)")
     (auto simp: np_take_def dest: collect_py_index_error)

lemma continuous_restriction_error:
  "continuous_restriction d x_int = Inl e \<Longrightarrow> e = IndexError \<or> e = ValueError"
  unfolding continuous_restriction_def Let_def sp_getitem_rows_def spa_eye_def
  by (cases "np_take (map (\<lambda>i. map (\<lambda>j. if i = j then 1 else (0::real)) [0..<length (pd_c d)]) [0..<length (pd_c d)]) (pd_int_idx d)";
      cases "pd_u d"; cases "pd_l d")
     (auto simp: subscriptable_def spa_vstack_def dest: np_take_error split: if_splits)

lemma solve_box_mip:
  "solve env_ok box_mip = Inr ([0], 1, \<lparr>int_vars = [0], active_constraints = [- 1, - 1]\<rparr>)"
  by (simp add: solve_def env_ok_def lower_tight_adapter_def box_mip_def box_lp_def is_mip_def
      np_take_def py_index_def continuous_restriction_def sp_getitem_rows_def spa_eye_def
      subscriptable_def spa_vstack_def Let_def)

lemma solve_box_lp:
  "solve env_ok box_lp = Inr ([0], 1, \<lparr>int_vars = [], active_constraints = [- 1]\<rparr>)"
  by (simp add: solve_def env_ok_def lower_tight_adapter_def box_lp_def is_mip_def Let_def)

subsection \<open>Facts about solve_with_strategy\<close>

lemma isl_then_do: "(\<And>v. isl (f v)) \<Longrightarrow> isl (then_do m f)"
  by (cases m) simp_all

lemma fix_integer_rows_mip: "is_mip d \<Longrightarrow> fix_integer_rows d s st = Inl TypeError"
  by (cases st) (simp add: fix_integer_rows_def sp_getitem_rows_real_def spa_eye_def
      subscriptable_def Let_def)

lemma fix_integer_rows_continuous: "\<not> is_mip d \<Longrightarrow> fix_integer_rows d s st = Inr st"
  by (cases st) (simp add: fix_integer_rows_def)

lemma np_where_eq_empty: "np_where_eq a k = [] \<longleftrightarrow> k \<notin> set a"
  by (auto simp: np_where_eq_def filter_empty_conv in_set_conv_nth)

lemma np_getitem_where_width:
  "np_getitem_where b idx = Inr r \<Longrightarrow> np_width r = length idx"
  by (cases b) (auto split: if_splits)

lemma np_vstack_bounds_raises:
  assumes "np_width lo \<noteq> 0 \<or> np_width hi \<noteq> 0"
  shows "np_vstack [Arr1 [], lo, hi] = Inl ValueError"
  using assms by (auto simp: np_vstack_def)

lemma use_active_constraints_raises:
  assumes "1 \<in> set (active_constraints s) \<or> - 1 \<in> set (active_constraints s)"
  shows "isl (use_active_constraints E d s (A_red, Arr1 []))"
proof -
  let ?up = "np_where_eq (active_constraints s) 1"
  let ?lo = "np_where_eq (active_constraints s) (- 1)"
  have ne: "length ?lo \<noteq> 0 \<or> length ?up \<noteq> 0"
    using assms np_where_eq_empty [of "active_constraints s" 1]
      np_where_eq_empty [of "active_constraints s" "- 1"] by auto
  have last: "isl (then_do (np_vstack [Arr1 [], l_lower, u_upper]) f)"
    if "np_getitem_where (pd_u d) ?up = Inr u_upper" "np_getitem_where (pd_l d) ?lo = Inr l_lower"
    for l_lower u_upper and f :: "ndarray \<Rightarrow> py_error + (spmatrix \<times> ndarray)"
    using that ne np_vstack_bounds_raises [of l_lower u_upper]
    by (auto dest!: np_getitem_where_width)
  show ?thesis
    unfolding use_active_constraints_def Let_def prod.case
    apply (rule isl_then_do)
    apply (cases "np_getitem_where (pd_u d) ?up")
     apply simp
    apply (simp only: then_do_Inr)
    apply (rule isl_then_do)
    apply (cases "np_getitem_where (pd_l d) ?lo")
     apply simp
    apply (simp only: then_do_Inr)
    apply (rule isl_then_do)
    apply (rule last)
     apply assumption+
    done
qed

lemma active_row_raises:
  assumes "\<not> is_mip d"
    and a: "1 \<in> set (active_constraints s) \<or> - 1 \<in> set (active_constraints s)"
  shows "isl (reduced_problem E d s)"
proof -
  have "isl (then_do (use_active_constraints E d s (A_red, Arr1 [])) f)" for A_red
    and f :: "spmatrix \<times> ndarray \<Rightarrow> py_error + problem_data"
    using use_active_constraints_raises [OF a, of E d A_red]
    by (cases "use_active_constraints E d s (A_red, Arr1 [])") simp_all
  with assms(1) show ?thesis
    by (simp add: reduced_problem_def validate_int_vars_def fix_integer_rows_continuous Let_def)
qed

lemma solve_with_strategy_raises:
  "isl (reduced_problem E d s) \<Longrightarrow> isl (solve_with_strategy E d s)"
  by (cases "reduced_problem E d s") (simp_all add: solve_with_strategy_def)

lemma validate_continuous: "\<not> is_mip d \<Longrightarrow> validate_int_vars d s = Inr ()"
  by (simp add: validate_int_vars_def)

lemma solve_with_strategy_ignores_int_vars:
  assumes "\<not> is_mip d"
  shows "solve_with_strategy E d (s\<lparr>int_vars := v\<rparr>) = solve_with_strategy E d s"
  using assms
  by (simp add: solve_with_strategy_def reduced_problem_def validate_continuous
      fix_integer_rows_continuous use_active_constraints_def Let_def)

lemma solve_with_strategy_all_slack:
  "solve_with_strategy env_ok box_lp \<lparr>int_vars = [], active_constraints = [0]\<rparr>
     = Inl IndexError"
  by (simp add: solve_with_strategy_def reduced_problem_def validate_int_vars_def
      fix_integer_rows_def use_active_constraints_def env_ok_def scipy_getitem_where_def
      box_lp_def is_mip_def Let_def)

subsection \<open>The value of infeasibility\<close>



section \<open>Claims\<close>

text \<open>
  C6. The claim says that \<^verbatim>\<open>eq_ineq()\<close> returns a partition of the row indices into
  equality and inequality rows. The code compares the tuple returned by \<^verbatim>\<open>np.where\<close>
  with \<open>TOL\<close>, so it raises on every instance, whatever \<open>TOL\<close> and the bounds are:
  TypeError when the bounds are one-dimensional and can be subtracted, as for
  \<open>l = [0, 0]\<close>, \<open>u = [0, 1]\<close>, where the claim gives the sets \<open>{0}\<close> and \<open>{1}\<close>.
\<close>

theorem eq_ineq_raises_TypeError:
  "isl (eq_ineq TOL d) \<and>
   eq_ineq TOL \<lparr>pd_c = c, pd_l = Arr1 [0, 0], pd_A = A, pd_u = Arr1 [0, 1], pd_int_idx = []\<rparr>
     = Inl TypeError"
proof -
  have "isl (eq_ineq TOL d)"
    by (simp add: eq_ineq_def Let_def then_do_def split: sum.splits)
  then show ?thesis by (simp add: eq_ineq_def np_binop_def)
qed

text \<open>
  C8. The claim says that \<^verbatim>\<open>suboptimality(x, x_opt)\<close> is
  \<open>(cost(x) - cost(x_opt)) / \<parallel>c\<parallel>\<close>. The code reads \<^verbatim>\<open>x.opt\<close>, so it raises: AttributeError
  when \<open>x\<close> has the length of \<open>c\<close>, ValueError from the first dot product otherwise. The
  argument \<open>x_opt\<close> has no part in the result.
\<close>

theorem suboptimality_raises:
  "suboptimality d x x_opt =
     (if length (pd_c d) = length x then Inl AttributeError else Inl ValueError)"
  by (simp add: suboptimality_def cost_def np_dot_def ndarray_opt_def)




text \<open>
  C2. Whenever \<^verbatim>\<open>solve\<close> returns, the solution vector and the time are the ones of the
  first solver call, on the instance itself. On a mixed-integer instance the strategy
  holds the entries of that same solution at \<^verbatim>\<open>int_idx\<close>, and the second solve, of the
  continuous restriction, gives the strategy its \<^verbatim>\<open>active_constraints\<close> and nothing
  else; on a continuous instance the active constraints are the first call's.
\<close>

theorem solve_returns_primary_solution:
  assumes "solve E d = Inr (x_opt, time, strat)"
  shows "x_opt = res_x (solver E d) \<and> time = res_run_time (solver E d) \<and>
         (if is_mip d then
            \<exists>x_int data_cont.
              np_take (res_x (solver E d)) (pd_int_idx d) = Inr x_int \<and>
              continuous_restriction d x_int = Inr data_cont \<and>
              strat = \<lparr>int_vars = x_int,
                       active_constraints = res_active_constraints (solver E data_cont)\<rparr>
          else strat = \<lparr>int_vars = [],
                        active_constraints = res_active_constraints (solver E d)\<rparr>)"
  using assms
  by (auto simp: solve_def Let_def then_do_eq_Inr split: if_splits option.splits)

theorem solve_returns_primary_solution_witness:
  "solve env_ok box_mip = Inr ([0], 1, \<lparr>int_vars = [0], active_constraints = [- 1, - 1]\<rparr>) \<and>
   [0] = res_x (solver env_ok box_mip) \<and> 1 = res_run_time (solver env_ok box_mip) \<and>
   is_mip box_mip \<and>
   (\<exists>x_int data_cont.
      np_take (res_x (solver env_ok box_mip)) (pd_int_idx box_mip) = Inr x_int \<and>
      continuous_restriction box_mip x_int = Inr data_cont \<and>
      \<lparr>int_vars = [0], active_constraints = [- 1, - 1]\<rparr> =
        \<lparr>int_vars = x_int, active_constraints = res_active_constraints (solver env_ok data_cont)\<rparr>)"
  using solve_returns_primary_solution [OF solve_box_mip] solve_box_mip
  by (auto simp: is_mip_def box_mip_def)

text \<open>
  C3. The claim says that on a mixed-integer instance the strategy's
  \<^verbatim>\<open>active_constraints\<close> is the restriction's vector cut down to the \<open>m\<close> rows of the
  instance, so that its length is \<open>m\<close>. The code keeps the vector as the adapter
  reports it for the restriction (line 149). On \<open>box_mip\<close>, one row and one integer
  variable, with an adapter that reports one entry per row of the instance it is handed,
  \<^verbatim>\<open>solve\<close> returns a strategy of two entries. \<^verbatim>\<open>solve_with_strategy\<close> reads the entries
  as positions in the \<open>m\<close> rows of \<open>l\<close>, \<open>u\<close> and \<open>A\<close> (lines 238-243): with this
  strategy lines 238-245 raise, whatever \<^verbatim>\<open>A[t, :]\<close> does and whatever has been stacked
  before, since \<^verbatim>\<open>l[t]\<close> reads position 1 of an array of length 1.
\<close>

theorem mip_strategy_longer_than_m:
  "solve env_ok box_mip = Inr ([0], 1, \<lparr>int_vars = [0], active_constraints = [- 1, - 1]\<rparr>) \<and>
   is_mip box_mip \<and> np_len (pd_l box_mip) = 1 \<and>
   length (active_constraints \<lparr>int_vars = [0], active_constraints = [- 1, - 1]\<rparr>) = 2 \<and>
   np_getitem_where (pd_l box_mip)
     (np_where_eq (active_constraints \<lparr>int_vars = [0], active_constraints = [- 1, - 1]\<rparr>) (- 1))
     = Inl IndexError \<and>
   (\<forall>E st. isl (use_active_constraints E box_mip
                   \<lparr>int_vars = [0], active_constraints = [- 1, - 1]\<rparr> st))"
proof -
  have sel: "np_getitem_where (pd_l box_mip)
      (np_where_eq (active_constraints \<lparr>int_vars = [0], active_constraints = [- 1, - 1]\<rparr>) (- 1))
      = Inl IndexError"
    by (simp add: np_where_eq_def box_mip_def box_lp_def)
  have "isl (use_active_constraints E box_mip
               \<lparr>int_vars = [0], active_constraints = [- 1, - 1]\<rparr> st)" for E st
  proof (cases st)
    case (Pair A_red bound_red)
    show ?thesis
      unfolding Pair use_active_constraints_def Let_def prod.case sel then_do_Inl
      by (intro isl_then_do) simp
  qed
  then show ?thesis
    using solve_box_mip sel by (simp add: is_mip_def box_mip_def box_lp_def)
qed

text \<open>
  C9. The claim says that \<^verbatim>\<open>solve\<close> raises an error carrying the status and the
  offending ProblemData exactly when the status is not in \<open>SOLUTION_PRESENT\<close>, and that
  this error always surfaces. The exception of line 128 holds the status alone: two
  different instances give the same error value. And lines 122-127 run first: when the
  import of cvxpy (or the GUROBI solve) raises, that exception surfaces instead.
\<close>

theorem solve_error_without_problem_data:
  "solve env_infeasible infeasible_lp = Inl (ProblemNotSolved ''infeasible'') \<and>
   solve env_infeasible infeasible_lp' = Inl (ProblemNotSolved ''infeasible'') \<and>
   infeasible_lp \<noteq> infeasible_lp' \<and>
   res_status (solver env_no_cvxpy infeasible_lp) \<notin> set (SOLUTION_PRESENT env_no_cvxpy) \<and>
   solve env_no_cvxpy infeasible_lp = Inl ImportError"
  by (simp add: solve_def env_no_cvxpy_def env_infeasible_def env_ok_def infeasible_adapter_def
      infeasible_lp_def infeasible_lp'_def box_lp_def Let_def)

text \<open>
  C9, as amended. When the status of the first solve is not in \<open>SOLUTION_PRESENT\<close>,
  \<^verbatim>\<open>solve\<close> returns no solution: it raises the exception of the cvxpy diagnostic if
  that raises, and otherwise the error of line 128, which carries the reported status
  (and not the ProblemData). When the status is in \<open>SOLUTION_PRESENT\<close>, \<^verbatim>\<open>solve\<close>
  never raises that error.
\<close>

theorem solve_raises_iff_no_solution:
  "(res_status (solver E d) \<notin> set (SOLUTION_PRESENT E) \<longrightarrow>
      solve E d = Inl (case cvx_gurobi E d of Some e \<Rightarrow> e
                       | None \<Rightarrow> ProblemNotSolved (res_status (solver E d)))) \<and>
   (res_status (solver E d) \<in> set (SOLUTION_PRESENT E) \<longrightarrow>
      solve E d \<noteq> Inl (ProblemNotSolved st))"
proof (intro conjI impI)
  assume "res_status (solver E d) \<notin> set (SOLUTION_PRESENT E)"
  then show "solve E d = Inl (case cvx_gurobi E d of Some e \<Rightarrow> e
                       | None \<Rightarrow> ProblemNotSolved (res_status (solver E d)))"
    by (simp add: solve_def Let_def split: option.splits)
next
  assume p: "res_status (solver E d) \<in> set (SOLUTION_PRESENT E)"
  show "solve E d \<noteq> Inl (ProblemNotSolved st)"
  proof (cases "is_mip d")
    case False
    with p show ?thesis by (simp add: solve_def Let_def)
  next
    case True
    show ?thesis
    proof (cases "np_take (res_x (solver E d)) (pd_int_idx d)")
      case (Inl e)
      with p True np_take_error [OF Inl] show ?thesis by (simp add: solve_def Let_def)
    next
      case (Inr x_int)
      show ?thesis
      proof (cases "continuous_restriction d x_int")
        case (Inl e)
        with p True Inr continuous_restriction_error [OF Inl] show ?thesis
          by (auto simp: solve_def Let_def)
      next
        case r: (Inr dc)
        with p True Inr show ?thesis by (simp add: solve_def Let_def)
      qed
    qed
  qed
qed

theorem solve_raises_iff_no_solution_witness:
  "res_status (solver env_infeasible infeasible_lp) \<notin> set (SOLUTION_PRESENT env_infeasible) \<and>
   solve env_infeasible infeasible_lp = Inl (ProblemNotSolved ''infeasible'') \<and>
   res_status (solver env_ok box_lp) \<in> set (SOLUTION_PRESENT env_ok) \<and>
   solve env_ok box_lp \<noteq> Inl (ProblemNotSolved ''infeasible'')"
  using solve_raises_iff_no_solution [of env_infeasible infeasible_lp]
    solve_raises_iff_no_solution [of env_ok box_lp "''infeasible''"]
  by (simp add: env_infeasible_def env_ok_def infeasible_adapter_def lower_tight_adapter_def)

text \<open>
  C1. The claim says that \<^verbatim>\<open>solve_with_strategy\<close>, given the strategy \<^verbatim>\<open>solve\<close> returned
  for the same instance, returns a solution close to the optimum. On \<open>box_lp\<close>
  (minimise \<open>x\<close> with \<open>0 \<le> x \<le> 1\<close>) \<^verbatim>\<open>solve\<close> returns \<open>x = 0\<close> and the strategy that
  marks the row tight at its lower bound; \<^verbatim>\<open>solve_with_strategy\<close> with that strategy
  raises: IndexError at line 240 with scipy's indexing, and whatever \<^verbatim>\<open>A[t, :]\<close> does,
  since \<^verbatim>\<open>np.vstack\<close> (line 245) is handed the empty \<^verbatim>\<open>bound_red\<close>, one lower bound and
  no upper bound, three rows of different lengths.
\<close>

theorem round_trip_raises:
  "solve env_ok box_lp = Inr ([0], 1, \<lparr>int_vars = [], active_constraints = [- 1]\<rparr>) \<and>
   solve_with_strategy env_ok box_lp \<lparr>int_vars = [], active_constraints = [- 1]\<rparr>
     = Inl IndexError \<and>
   (\<forall>sel. isl (solve_with_strategy (env_ok\<lparr>getitem_where_rows := sel\<rparr>) box_lp
                 \<lparr>int_vars = [], active_constraints = [- 1]\<rparr>))"
proof -
  have "solve_with_strategy env_ok box_lp \<lparr>int_vars = [], active_constraints = [- 1]\<rparr>
          = Inl IndexError"
    by (simp add: solve_with_strategy_def reduced_problem_def validate_int_vars_def
        fix_integer_rows_def use_active_constraints_def env_ok_def scipy_getitem_where_def
        box_lp_def is_mip_def Let_def)
  moreover have "isl (solve_with_strategy (env_ok\<lparr>getitem_where_rows := sel\<rparr>) box_lp
                        \<lparr>int_vars = [], active_constraints = [- 1]\<rparr>)" for sel
    by (rule solve_with_strategy_raises, rule active_row_raises) (simp_all add: is_mip_def box_lp_def)
  ultimately show ?thesis using solve_box_lp by simp
qed

text \<open>
  C4. The claim describes the reduced instance \<^verbatim>\<open>solve_with_strategy\<close> builds: a row
  per fixed integer variable and a row per active constraint. The code builds no
  reduced instance in any of these cases: on a mixed-integer instance line 234
  subscripts the DIA matrix \<^verbatim>\<open>spa.eye(n_var)\<close> (TypeError, if the assertions passed),
  and with an active row line 245 stacks bound arrays of different lengths
  (ValueError), if line 240 or 242 has not raised before.
\<close>

theorem reduced_problem_never_built:
  assumes "is_mip d \<or> 1 \<in> set (active_constraints s) \<or> - 1 \<in> set (active_constraints s)"
  shows "isl (reduced_problem E d s) \<and> isl (solve_with_strategy E d s)"
proof -
  have "isl (reduced_problem E d s)"
  proof (cases "is_mip d")
    case True
    show ?thesis
    proof (cases "validate_int_vars d s")
      case (Inl e)
      then show ?thesis by (simp add: reduced_problem_def)
    next
      case (Inr ok)
      with True show ?thesis
        by (simp add: reduced_problem_def fix_integer_rows_mip Let_def)
    qed
  next
    case False
    with assms show ?thesis by (simp add: active_row_raises)
  qed
  then show ?thesis by (simp add: solve_with_strategy_raises)
qed

theorem reduced_problem_never_built_witness:
  "is_mip tall_mip \<and>
   1 \<in> set (active_constraints \<lparr>int_vars = [0], active_constraints = [0, 1]\<rparr>) \<and>
   validate_int_vars tall_mip \<lparr>int_vars = [0], active_constraints = [0, 1]\<rparr> = Inr () \<and>
   reduced_problem env_ok tall_mip \<lparr>int_vars = [0], active_constraints = [0, 1]\<rparr>
     = Inl TypeError \<and>
   isl (solve_with_strategy env_ok tall_mip \<lparr>int_vars = [0], active_constraints = [0, 1]\<rparr>)"
  using reduced_problem_never_built
    [of tall_mip "\<lparr>int_vars = [0], active_constraints = [0, 1]\<rparr>" env_ok]
  by (simp add: tall_mip_def is_mip_def validate_int_vars_def py_assert_def reduced_problem_def
      fix_integer_rows_def sp_getitem_rows_real_def spa_eye_def subscriptable_def Let_def)

text \<open>
  C5. The claim says that on a mixed-integer instance the entries of
  \<^verbatim>\<open>strategy.int_vars\<close> are checked against \<open>[0, n)\<close>, \<open>n\<close> the number of variables.
  The assertion of line 223 compares with \<^verbatim>\<open>len(self.data.l)\<close>, the number of rows, and
  with \<open>\<le>\<close>. With three variables and one row the entry 2 is refused although it lies
  in \<open>[0, 3)\<close>; with one variable and two rows the entry 2 passes although it lies
  outside \<open>[0, 1)\<close>, and the failure comes later, from line 234.
\<close>

theorem validation_bound_is_row_count:
  "length (pd_c wide_mip) = 3 \<and> is_mip wide_mip \<and>
   validate_int_vars wide_mip \<lparr>int_vars = [2], active_constraints = [0]\<rparr> = Inl AssertionError \<and>
   length (pd_c tall_mip) = 1 \<and> is_mip tall_mip \<and>
   validate_int_vars tall_mip \<lparr>int_vars = [2], active_constraints = [0, 0]\<rparr> = Inr () \<and>
   reduced_problem env_ok tall_mip \<lparr>int_vars = [2], active_constraints = [0, 0]\<rparr> = Inl TypeError"
  by (simp add: wide_mip_def tall_mip_def is_mip_def validate_int_vars_def py_assert_def
      reduced_problem_def fix_integer_rows_def sp_getitem_rows_real_def spa_eye_def
      subscriptable_def Let_def)

text \<open>
  C10. On an instance without integer variables \<^verbatim>\<open>solve_with_strategy\<close> does not look
  at \<^verbatim>\<open>strategy.int_vars\<close>: the assertions of lines 223-224 are skipped, lines 234-235
  leave \<^verbatim>\<open>A_red\<close> and \<^verbatim>\<open>bound_red\<close> as they are, and the result is the same for every
  value of \<^verbatim>\<open>int_vars\<close>. So the assertions can fail on a mixed-integer instance only.
  (With scipy's indexing the call then raises at line 240, for every strategy alike.)
\<close>

theorem continuous_instance_ignores_int_vars:
  assumes "\<not> is_mip d"
  shows "validate_int_vars d s = Inr () \<and> fix_integer_rows d s st = Inr st \<and>
         solve_with_strategy E d (s\<lparr>int_vars := v\<rparr>) = solve_with_strategy E d s"
  using assms
  by (simp add: validate_continuous fix_integer_rows_continuous
      solve_with_strategy_ignores_int_vars)

theorem continuous_instance_ignores_int_vars_witness:
  "\<not> is_mip box_lp \<and>
   validate_int_vars box_lp \<lparr>int_vars = [7, - 3], active_constraints = [0]\<rparr> = Inr () \<and>
   fix_integer_rows box_lp \<lparr>int_vars = [7, - 3], active_constraints = [0]\<rparr>
     (\<lparr>sp_fmt = CSC, sp_ncols = 1, sp_rows = []\<rparr>, Arr1 [])
     = Inr (\<lparr>sp_fmt = CSC, sp_ncols = 1, sp_rows = []\<rparr>, Arr1 []) \<and>
   solve_with_strategy env_ok box_lp \<lparr>int_vars = [7, - 3], active_constraints = [0]\<rparr>
     = solve_with_strategy env_ok box_lp \<lparr>int_vars = [], active_constraints = [0]\<rparr> \<and>
   solve_with_strategy env_ok box_lp \<lparr>int_vars = [7, - 3], active_constraints = [0]\<rparr>
     = Inl IndexError"
  using continuous_instance_ignores_int_vars
    [of box_lp "\<lparr>int_vars = [], active_constraints = [0]\<rparr>" _ env_ok "[7, - 3]"]
    continuous_instance_ignores_int_vars
    [of box_lp "\<lparr>int_vars = [7, - 3], active_constraints = [0]\<rparr>"
      "(\<lparr>sp_fmt = CSC, sp_ncols = 1, sp_rows = []\<rparr>, Arr1 [])"]
    solve_with_strategy_all_slack
  by (simp add: is_mip_def box_lp_def)

end
